theory Spec2Isabelle
  imports Main
begin

section \<open>JavaScript values seen by the handlers\<close>

text \<open>
  Every message is one JSON document. \<open>JSON.parse\<close> is the engine's; the model starts from
  its outcome: either it throws a \<open>SyntaxError\<close> (with the engine's message), or it returns
  a JSON value. A number is carried as its decimal text: the text
  \<open>Number.prototype.toString\<close> gives for it, except that negative zero, which \<open>toString\<close>
  writes as \<open>0\<close>, is carried as \<open>-0\<close>. The handlers observe a number only through its
  \<open>toString\<close> text (as a property key), through its truthiness (zero, negative zero and
  \<open>NaN\<close> are falsy) and by forwarding it. A number too large for a double, such as
  \<open>1e400\<close>, is parsed as \<open>Infinity\<close> (or \<open>-Infinity\<close>).
  A string is a well-formed Unicode text. An object is the list of its own properties
  with distinct keys, in the order in which they are enumerated (the order in which
  \<open>JSON.stringify\<close> writes them). The engine's resource limits (stack depth, memory) are
  not modelled.
  \<open>undefined\<close> is not a JSON value: a JavaScript value is a \<open>json option\<close>, with
  \<open>None\<close> for \<open>undefined\<close>.
\<close>

datatype json =
    JNull
  | JBool bool
  | JNum string
  | JStr string
  | JArr "json list"
  | JObj "(string \<times> json) list"

type_synonym jsval = "json option"

datatype thrown = SyntaxError string | TypeError string

datatype inbound = Malformed string | Parsed json

type_synonym conn = nat

text \<open>
  \<open>data.f\<close> on a parsed, non-null value, for the property names the handlers read
  (\<open>type\<close>, \<open>room\<close>, \<open>user\<close>, \<open>key\<close>, \<open>payload\<close>, \<open>action\<close>, \<open>time\<close>, \<open>videoId\<close>,
  \<open>sdp\<close>, \<open>candidate\<close>): an object gives its own property or \<open>undefined\<close>; a string, number,
  boolean or array has none of these properties. (On \<open>null\<close> the read throws; the callers
  handle that case before they use \<open>field\<close>.)
\<close>

fun field :: "json \<Rightarrow> string \<Rightarrow> jsval" where
  "field (JObj kvs) f = map_of kvs f"
| "field _ f = None"

text \<open>
  \<open>JSON.stringify\<close>. What is sent is a text; the model keeps the JSON value that the text
  denotes. It is the value that was written, except that, at any depth, a number that is
  not finite is written as \<open>null\<close> and negative zero is written as \<open>0\<close>. In an object
  literal, a property whose value is \<open>undefined\<close> is left out of the document.
\<close>

definition finite_number :: "string \<Rightarrow> bool" where
  "finite_number n \<longleftrightarrow> n \<noteq> ''Infinity'' \<and> n \<noteq> ''-Infinity'' \<and> n \<noteq> ''NaN''"

fun stringified :: "json \<Rightarrow> json" where
  "stringified JNull = JNull"
| "stringified (JBool b) = JBool b"
| "stringified (JNum n) =
     (if \<not> finite_number n then JNull else if n = ''-0'' then JNum ''0'' else JNum n)"
| "stringified (JStr s) = JStr s"
| "stringified (JArr xs) = JArr (map stringified xs)"
| "stringified (JObj kvs) = JObj (map (\<lambda>kv. (fst kv, stringified (snd kv))) kvs)"

fun object :: "(string \<times> jsval) list \<Rightarrow> (string \<times> json) list" where
  "object [] = []"
| "object ((k, None) # kvs) = object kvs"
| "object ((k, Some v) # kvs) = (k, stringified v) # object kvs"

text \<open>
  The values that are written as they are: those in which every number is finite and
  none is negative zero.
\<close>

fun written_as_is :: "json \<Rightarrow> bool" where
  "written_as_is (JNum n) = (finite_number n \<and> n \<noteq> ''-0'')"
| "written_as_is (JArr xs) = list_all written_as_is xs"
| "written_as_is (JObj kvs) = list_all (\<lambda>kv. written_as_is (snd kv)) kvs"
| "written_as_is v = True"

text \<open>Truthiness, as \<open>roomId && ...\<close> and \<open>if (data.payload.sdp)\<close> test it.\<close>

fun truthy :: "jsval \<Rightarrow> bool" where
  "truthy None = False"
| "truthy (Some JNull) = False"
| "truthy (Some (JBool b)) = b"
| "truthy (Some (JNum n)) = (n \<noteq> ''0'' \<and> n \<noteq> ''-0'' \<and> n \<noteq> ''NaN'')"
| "truthy (Some (JStr s)) = (s \<noteq> [])"
| "truthy (Some (JArr xs)) = True"
| "truthy (Some (JObj kvs)) = True"

text \<open>
  \<open>rooms[roomId]\<close> converts \<open>roomId\<close> to a property key (ToPrimitive with hint string, then
  ToString). An array is joined with commas, \<open>null\<close> elements giving the empty string. An
  object gives \<open>[object Object]\<close> through \<open>Object.prototype.toString\<close>, unless it has an own
  property \<open>toString\<close>: a parsed value is never callable, \<open>valueOf\<close> gives no primitive
  either, and the conversion throws a \<open>TypeError\<close> (\<open>None\<close> here).
\<close>

fun join_comma :: "string option list \<Rightarrow> string option" where
  "join_comma [] = Some []"
| "join_comma [x] = x"
| "join_comma (x # y # ys) =
     (case x of None \<Rightarrow> None
      | Some a \<Rightarrow> (case join_comma (y # ys) of None \<Rightarrow> None
                   | Some b \<Rightarrow> Some (a @ '','' @ b)))"

fun ToString :: "json \<Rightarrow> string option" where
  "ToString JNull = Some ''null''"
| "ToString (JBool b) = Some (if b then ''true'' else ''false'')"
| "ToString (JNum n) = Some (if n = ''-0'' then ''0'' else n)"
| "ToString (JStr s) = Some s"
| "ToString (JArr xs) = join_comma (map (\<lambda>x. if x = JNull then Some [] else ToString x) xs)"
| "ToString (JObj kvs) =
     (if ''toString'' \<in> set (map fst kvs) then None else Some ''[object Object]'')"

fun ToPropertyKey :: "jsval \<Rightarrow> string option" where
  "ToPropertyKey None = Some ''undefined''"
| "ToPropertyKey (Some v) = ToString v"

section \<open>The signaling server (server/index.js)\<close>

text \<open>
  \<open>rooms\<close> is a plain object: a lookup finds an own property (a peer array), or a property
  inherited from \<open>Object.prototype\<close> (a function, or the prototype itself for \<open>__proto__\<close>:
  truthy, and without \<open>push\<close>, \<open>forEach\<close> or \<open>filter\<close>), or nothing.
\<close>

record 'b peer =
  ws :: conn
  userId :: jsval
  key :: 'b

text \<open>The variables \<open>roomId\<close>, \<open>userId\<close>, \<open>key\<close> of one connection's closure.\<close>

record 'b closure =
  roomId :: jsval
  var_userId :: jsval
  var_key :: "'b option"

record 'b server =
  rooms :: "string \<rightharpoonup> 'b peer list"
  closures :: "conn \<Rightarrow> 'b closure"

datatype 'b slot = Own "'b peer list" | Inherited | Absent

definition object_prototype_keys :: "string list" where
  "object_prototype_keys =
     [''constructor'', ''__defineGetter__'', ''__defineSetter__'', ''hasOwnProperty'',
      ''__lookupGetter__'', ''__lookupSetter__'', ''isPrototypeOf'',
      ''propertyIsEnumerable'', ''toString'', ''valueOf'', ''__proto__'',
      ''toLocaleString'']"

definition rooms_get :: "(string \<rightharpoonup> 'b peer list) \<Rightarrow> string \<Rightarrow> 'b slot" where
  "rooms_get rs k =
     (case rs k of
        Some l \<Rightarrow> Own l
      | None \<Rightarrow> if k \<in> set object_prototype_keys then Inherited else Absent)"

definition new_closure :: "'b closure" where
  "new_closure = \<lparr>roomId = None, var_userId = None, var_key = None\<rparr>"

definition server0 :: "'b server" where
  "server0 = \<lparr>rooms = Map.empty, closures = (\<lambda>w. new_closure)\<rparr>"

text \<open>
  What the handlers do to the outside is \<open>ws.send(JSON.stringify(obj))\<close> only: an output is
  the receiving connection and the object sent. A send is recorded whether or not the
  receiving socket is still open, and is taken not to throw. The effects of a \<open>try\<close> body
  are the state it leaves, the sends it made, and the exception that ended it, if any.
\<close>

type_synonym sends = "(conn \<times> json) list"

type_synonym 'b outcome = "'b server \<times> sends \<times> thrown option"

definition cannot_convert :: thrown where
  "cannot_convert = TypeError ''Cannot convert object to primitive value''"

text \<open>
  The \<open>join\<close> branch. \<open>Buffer.from(data.key, 'hex')\<close> is Node's: it is the parameter \<open>bf\<close>,
  \<open>Inl\<close> when it throws. The closure variables are assigned before it is called.
\<close>

definition joined_envelope :: "jsval \<Rightarrow> json" where
  "joined_envelope r = JObj (object [(''type'', Some (JStr ''joined'')), (''room'', r)])"

definition join_branch ::
  "(jsval \<Rightarrow> thrown + 'b) \<Rightarrow> 'b server \<Rightarrow> conn \<Rightarrow> json \<Rightarrow> 'b outcome" where
  "join_branch bf s w data =
     (let c1 = (closures s w)\<lparr>roomId := field data ''room'', var_userId := field data ''user''\<rparr>;
          s1 = s\<lparr>closures := (closures s)(w := c1)\<rparr>
      in case bf (field data ''key'') of
           Inl e \<Rightarrow> (s1, [], Some e)
         | Inr k \<Rightarrow>
            (let s2 = s\<lparr>closures := (closures s)(w := c1\<lparr>var_key := Some k\<rparr>)\<rparr>;
                 p = \<lparr>ws = w, userId = var_userId c1, key = k\<rparr>
             in case ToPropertyKey (roomId c1) of
                  None \<Rightarrow> (s2, [], Some cannot_convert)
                | Some r \<Rightarrow>
                   (case rooms_get (rooms s2) r of
                      Inherited \<Rightarrow>
                        (s2, [], Some (TypeError ''rooms[roomId].push is not a function''))
                    | Absent \<Rightarrow>
                        (s2\<lparr>rooms := (rooms s2)(r \<mapsto> [] @ [p])\<rparr>,
                         [(w, joined_envelope (roomId c1))], None)
                    | Own l \<Rightarrow>
                        (s2\<lparr>rooms := (rooms s2)(r \<mapsto> l @ [p])\<rparr>,
                         [(w, joined_envelope (roomId c1))], None))))"

text \<open>
  The two relay branches: \<open>peers = rooms[roomId] || []\<close>, then one send for each element
  whose \<open>ws\<close> is not the sender's, in the array's order.
\<close>

definition signal_envelope :: "jsval \<Rightarrow> json \<Rightarrow> json" where
  "signal_envelope from data =
     JObj (object [(''type'', Some (JStr ''signal'')), (''from'', from),
                   (''payload'', field data ''payload'')])"

definition yt_sync_envelope :: "json \<Rightarrow> json" where
  "yt_sync_envelope data =
     JObj (object [(''type'', Some (JStr ''yt-sync'')), (''action'', field data ''action''),
                   (''time'', field data ''time''), (''videoId'', field data ''videoId'')])"

definition forEach_send :: "conn \<Rightarrow> json \<Rightarrow> 'b peer list \<Rightarrow> sends" where
  "forEach_send w env peers = map (\<lambda>p. (ws p, env)) (filter (\<lambda>p. ws p \<noteq> w) peers)"

definition relay :: "'b server \<Rightarrow> conn \<Rightarrow> json \<Rightarrow> 'b outcome" where
  "relay s w env =
     (case ToPropertyKey (roomId (closures s w)) of
        None \<Rightarrow> (s, [], Some cannot_convert)
      | Some r \<Rightarrow>
         (case rooms_get (rooms s) r of
            Absent \<Rightarrow> (s, [], None)
          | Own l \<Rightarrow> (s, forEach_send w env l, None)
          | Inherited \<Rightarrow> (s, [], Some (TypeError ''peers.forEach is not a function''))))"

definition try_body ::
  "(jsval \<Rightarrow> thrown + 'b) \<Rightarrow> 'b server \<Rightarrow> conn \<Rightarrow> inbound \<Rightarrow> 'b outcome" where
  "try_body bf s w m =
     (case m of
        Malformed msg \<Rightarrow> (s, [], Some (SyntaxError msg))
      | Parsed data \<Rightarrow>
         if data = JNull
         then (s, [], Some (TypeError ''Cannot read properties of null (reading 'type')''))
         else if field data ''type'' = Some (JStr ''join'') then join_branch bf s w data
         else if field data ''type'' = Some (JStr ''signal'')
           then relay s w (signal_envelope (var_userId (closures s w)) data)
         else if field data ''type'' = Some (JStr ''yt-sync'')
           then relay s w (yt_sync_envelope data)
         else (s, [], None))"

fun message_of :: "thrown \<Rightarrow> string" where
  "message_of (SyntaxError msg) = msg"
| "message_of (TypeError msg) = msg"

definition error_envelope :: "thrown \<Rightarrow> json" where
  "error_envelope e =
     JObj (object [(''type'', Some (JStr ''error'')), (''message'', Some (JStr (message_of e)))])"

text \<open>\<open>ws.on('message')\<close>: the \<open>try\<close> body, and the \<open>catch\<close> that reports to the sender.\<close>

definition on_message ::
  "(jsval \<Rightarrow> thrown + 'b) \<Rightarrow> 'b server \<Rightarrow> conn \<Rightarrow> inbound \<Rightarrow> 'b server \<times> sends" where
  "on_message bf s w m =
     (case try_body bf s w m of
        (s', out, None) \<Rightarrow> (s', out)
      | (s', out, Some e) \<Rightarrow> (s', out @ [(w, error_envelope e)]))"

text \<open>
  \<open>ws.on('close')\<close>. Nothing catches an exception here: it ends the process (\<open>Inl\<close>).
\<close>

definition on_close :: "'b server \<Rightarrow> conn \<Rightarrow> thrown + 'b server" where
  "on_close s w =
     (if \<not> truthy (roomId (closures s w)) then Inr s
      else case ToPropertyKey (roomId (closures s w)) of
             None \<Rightarrow> Inl cannot_convert
           | Some r \<Rightarrow>
              (case rooms_get (rooms s) r of
                 Absent \<Rightarrow> Inr s
               | Inherited \<Rightarrow> Inl (TypeError ''rooms[roomId].filter is not a function'')
               | Own l \<Rightarrow>
                  (let l' = filter (\<lambda>p. ws p \<noteq> w) l
                   in if length l' = 0 then Inr (s\<lparr>rooms := (rooms s)(r := None)\<rparr>)
                      else Inr (s\<lparr>rooms := (rooms s)(r \<mapsto> l')\<rparr>))))"

text \<open>The server processes one event to completion before the next.\<close>

datatype event = Message conn inbound | Close conn

fun run ::
  "(jsval \<Rightarrow> thrown + 'b) \<Rightarrow> 'b server \<Rightarrow> event list \<Rightarrow> thrown + 'b server \<times> sends" where
  "run bf s [] = Inr (s, [])"
| "run bf s (Message w m # es) =
     (case on_message bf s w m of
        (s', out) \<Rightarrow>
          (case run bf s' es of Inl e \<Rightarrow> Inl e | Inr (s'', out') \<Rightarrow> Inr (s'', out @ out')))"
| "run bf s (Close w # es) =
     (case on_close s w of Inl e \<Rightarrow> Inl e | Inr s' \<Rightarrow> run bf s' es)"

section \<open>The client (src/App.tsx)\<close>

text \<open>
  A handler is a closure over the state of the render that created it and over the refs:
  the \<open>client\<close> record is what the handler sees when it runs. \<open>wsRef\<close> and \<open>pcRef\<close> say
  whether \<open>wsRef.current\<close> and \<open>pcRef.current\<close> hold an object or \<open>null\<close>. The calls on
  the \<open>RTCPeerConnection\<close> are awaited and may reject: their outcomes are inputs
  (\<open>platform\<close>), and what a handler does to the connection and the socket is the list of
  its calls, in order. \<open>log\<close> appends to the diagnostic \<open>logs\<close> list only and is left out.
\<close>

text \<open>
  Modelled from the spec: the YouTube player behind the interface \<open>YT.Player\<close>, which this
  repository declares and does not implement. The spec takes it as "an opaque
  controllable player with play/pause/seek/load operations", where "applying \<open>play\<close> to
  an already-playing player is a no-op in effect". Its state is the playback state the
  IFrame API reports, the current time and the video.
\<close>

datatype playback = Unstarted | Ended | Playing | Paused | Buffering | Cued

record player =
  playerState :: playback
  currentTime :: jsval
  video :: jsval

text \<open>Modelled from the spec: \<open>playVideo()\<close>, the player's play operation.\<close>

definition playVideo :: "player \<Rightarrow> player" where
  "playVideo p = p\<lparr>playerState := Playing\<rparr>"

text \<open>Modelled from the spec: \<open>pauseVideo()\<close>, the player's pause operation.\<close>

definition pauseVideo :: "player \<Rightarrow> player" where
  "pauseVideo p = p\<lparr>playerState := Paused\<rparr>"

text \<open>Modelled from the spec: \<open>seekTo(seconds, true)\<close>, "seek-to with the given time".\<close>

definition seekTo :: "jsval \<Rightarrow> player \<Rightarrow> player" where
  "seekTo seconds p = p\<lparr>currentTime := seconds\<rparr>"

text \<open>Modelled from the spec: \<open>loadVideoById(videoId)\<close>, "loads the new video identifier".\<close>

definition loadVideoById :: "jsval \<Rightarrow> player \<Rightarrow> player" where
  "loadVideoById v p = p\<lparr>video := v\<rparr>"

text \<open>Modelled from the spec: \<open>getCurrentTime()\<close>, the player's position.\<close>

definition getCurrentTime :: "player \<Rightarrow> jsval" where
  "getCurrentTime p = currentTime p"

record client =
  room :: string
  username :: string
  isHost :: bool
  wsReady :: bool
  disableSync :: bool
  error :: "string option"
  wsRef :: bool
  pcRef :: bool
  ytPlayerRef :: "player option"

record platform =
  createOffer :: "json option"
  createAnswer :: "json option"
  setLocalDescription :: bool
  setRemoteDescription :: bool
  addIceCandidate :: bool

datatype action =
    CreateOffer
  | CreateAnswer
  | SetRemoteDescription json
  | SetLocalDescription json
  | AddIceCandidate json
  | WsSend json

definition client_signal :: "client \<Rightarrow> (string \<times> json) list \<Rightarrow> json" where
  "client_signal c payload =
     JObj (object [(''type'', Some (JStr ''signal'')), (''room'', Some (JStr (room c))),
                   (''user'', Some (JStr (username c))), (''payload'', Some (JObj payload))])"

text \<open>\<open>startCall\<close>, the handler of the Start Call button.\<close>

definition startCall :: "platform \<Rightarrow> client \<Rightarrow> client \<times> action list" where
  "startCall pf c =
     (if \<not> wsReady c then (c\<lparr>error := Some ''WebSocket not ready, cannot start call''\<rparr>, [])
      else let c1 = c\<lparr>isHost := True\<rparr> in
        if pcRef c \<and> wsRef c then
          (case createOffer pf of
             None \<Rightarrow> (c1\<lparr>error := Some ''Failed to start call.''\<rparr>, [CreateOffer])
           | Some offer \<Rightarrow>
              if \<not> setLocalDescription pf
              then (c1\<lparr>error := Some ''Failed to start call.''\<rparr>,
                    [CreateOffer, SetLocalDescription offer])
              else (c1, [CreateOffer, SetLocalDescription offer,
                         WsSend (client_signal c [(''sdp'', offer)])]))
        else (c1, []))"

text \<open>
  \<open>wsRef.current.onmessage\<close>. Any exception in the body, a rejected call included, ends
  it in the \<open>catch\<close>, which sets the error banner.
\<close>

definition message_failed :: "client \<Rightarrow> client" where
  "message_failed c = c\<lparr>error := Some ''Error handling server message.''\<rparr>"

definition on_sdp :: "platform \<Rightarrow> client \<Rightarrow> json \<Rightarrow> client \<times> action list" where
  "on_sdp pf c sdp =
     (if \<not> setRemoteDescription pf then (message_failed c, [SetRemoteDescription sdp])
      else if field sdp ''type'' = Some (JStr ''offer'') then
        (case createAnswer pf of
           None \<Rightarrow> (message_failed c, [SetRemoteDescription sdp, CreateAnswer])
         | Some answer \<Rightarrow>
            if \<not> setLocalDescription pf
            then (message_failed c,
                  [SetRemoteDescription sdp, CreateAnswer, SetLocalDescription answer])
            else (c, [SetRemoteDescription sdp, CreateAnswer, SetLocalDescription answer]
                     @ (if wsRef c then [WsSend (client_signal c [(''sdp'', answer)])] else [])))
      else (c, [SetRemoteDescription sdp]))"

definition on_signal :: "platform \<Rightarrow> client \<Rightarrow> json \<Rightarrow> client \<times> action list" where
  "on_signal pf c data =
     (case field data ''payload'' of
        None \<Rightarrow> (message_failed c, [])
      | Some payload \<Rightarrow>
         if payload = JNull then (message_failed c, [])
         else if truthy (field payload ''sdp'')
           then (case field payload ''sdp'' of
                   Some sdp \<Rightarrow> on_sdp pf c sdp
                 | None \<Rightarrow> (c, []))
         else if truthy (field payload ''candidate'')
           then (case field payload ''candidate'' of
                   Some candidate \<Rightarrow>
                     if \<not> addIceCandidate pf then (message_failed c, [AddIceCandidate candidate])
                     else (c, [AddIceCandidate candidate])
                 | None \<Rightarrow> (c, []))
         else (c, []))"

definition on_yt_sync :: "json \<Rightarrow> player \<Rightarrow> player" where
  "on_yt_sync data p =
     (let p1 = (if field data ''action'' = Some (JStr ''play'') then playVideo p else p);
          p2 = (if field data ''action'' = Some (JStr ''pause'') then pauseVideo p1 else p1);
          p3 = (if field data ''action'' = Some (JStr ''seek'')
                then seekTo (field data ''time'') p2 else p2)
      in if field data ''action'' = Some (JStr ''load'')
         then loadVideoById (field data ''videoId'') p3 else p3)"

definition onmessage :: "platform \<Rightarrow> client \<Rightarrow> inbound \<Rightarrow> client \<times> action list" where
  "onmessage pf c m =
     (case m of
        Malformed msg \<Rightarrow> (message_failed c, [])
      | Parsed data \<Rightarrow>
         if data = JNull then (message_failed c, [])
         else if field data ''type'' = Some (JStr ''signal'') \<and> pcRef c then on_signal pf c data
         else if field data ''type'' = Some (JStr ''yt-sync'') \<and> ytPlayerRef c \<noteq> None
                 \<and> \<not> disableSync c
           then (c\<lparr>ytPlayerRef := map_option (on_yt_sync data) (ytPlayerRef c)\<rparr>, [])
         else (c, []))"

text \<open>
  The periodic sync effect: its guard decides whether the 5000 ms interval is installed,
  and \<open>periodic_sync_tick\<close> is the interval's callback, run each time the timer fires.
\<close>

definition periodic_sync_installed :: "client \<Rightarrow> bool" where
  "periodic_sync_installed c \<longleftrightarrow>
     \<not> (\<not> isHost c \<or> ytPlayerRef c = None \<or> \<not> wsRef c \<or> disableSync c)"

definition seek_envelope :: "client \<Rightarrow> jsval \<Rightarrow> json" where
  "seek_envelope c time =
     JObj (object [(''type'', Some (JStr ''yt-sync'')), (''room'', Some (JStr (room c))),
                   (''action'', Some (JStr ''seek'')), (''time'', time)])"

definition periodic_sync_tick :: "client \<Rightarrow> action list" where
  "periodic_sync_tick c =
     (case ytPlayerRef c of
        None \<Rightarrow> []
      | Some p \<Rightarrow>
         if wsRef c \<and> isHost c \<and> \<not> disableSync c
         then [WsSend (seek_envelope c (getCurrentTime p))]
         else [])"

section \<open>Observations and example states\<close>

text \<open>
  An instance of \<open>Buffer.from(value, 'hex')\<close> for the examples: Node accepts every string
  (the buffer is represented by the text it is decoded from) and throws a \<open>TypeError\<close> on
  \<open>undefined\<close>, \<open>null\<close>, a boolean or a number. Node also converts arrays and some
  objects; the examples use string keys only, and the theorems hold for every \<open>bf\<close>.
\<close>

fun Buffer_from_hex :: "jsval \<Rightarrow> thrown + string" where
  "Buffer_from_hex (Some (JStr s)) = Inr s"
| "Buffer_from_hex _ =
     Inl (TypeError ''The first argument must be of type string or an instance of Buffer, ArrayBuffer, or Array or an Array-like Object.'')"

text \<open>The join envelope as the client sends it, with a short key.\<close>

definition join_msg :: "string \<Rightarrow> string \<Rightarrow> inbound" where
  "join_msg r u =
     Parsed (JObj [(''type'', JStr ''join''), (''room'', JStr r), (''user'', JStr u),
                   (''key'', JStr ''00'')])"

text \<open>How many sends went to a connection, and how many entries it has in a peer array.\<close>

definition copies_to :: "conn \<Rightarrow> sends \<Rightarrow> nat" where
  "copies_to c out = length (filter (\<lambda>x. fst x = c) out)"

definition entries_of :: "conn \<Rightarrow> 'b peer list \<Rightarrow> nat" where
  "entries_of c l = length (filter (\<lambda>p. ws p = c) l)"

text \<open>The sessions of a room: the array stored under its code, empty when there is none.\<close>

definition session_list :: "'b server \<Rightarrow> string \<Rightarrow> 'b peer list" where
  "session_list s r = (case rooms s r of None \<Rightarrow> [] | Some l \<Rightarrow> l)"

definition is_relay_type :: "json \<Rightarrow> bool" where
  "is_relay_type data \<longleftrightarrow>
     field data ''type'' = Some (JStr ''signal'') \<or> field data ''type'' = Some (JStr ''yt-sync'')"

definition relayed_envelope :: "'b server \<Rightarrow> conn \<Rightarrow> json \<Rightarrow> json" where
  "relayed_envelope s w data =
     (if field data ''type'' = Some (JStr ''signal'')
      then signal_envelope (var_userId (closures s w)) data
      else yt_sync_envelope data)"

definition known_types :: "jsval set" where
  "known_types = {Some (JStr ''join''), Some (JStr ''signal''), Some (JStr ''yt-sync'')}"

definition no_empty_room :: "'b server \<Rightarrow> bool" where
  "no_empty_room s \<longleftrightarrow> (\<forall>r l. rooms s r = Some l \<longrightarrow> l \<noteq> [])"

text \<open>Example states, each reached from the server's start by the messages shown.\<close>

definition two_in_room :: "string server" where
  "two_in_room =
     fst (on_message Buffer_from_hex
       (fst (on_message Buffer_from_hex server0 1 (join_msg ''r'' ''alice'')))
       2 (join_msg ''r'' ''bob''))"

definition alice_in_a :: "string server" where
  "alice_in_a = fst (on_message Buffer_from_hex server0 1 (join_msg ''a'' ''alice''))"

definition joined_a_then_b :: "string server" where
  "joined_a_then_b = fst (on_message Buffer_from_hex alice_in_a 1 (join_msg ''b'' ''alice''))"

definition left_in_a :: "string server" where
  "left_in_a = joined_a_then_b\<lparr>rooms := (rooms joined_a_then_b)(''b'' := None)\<rparr>"

definition alice_in_empty :: "string server" where
  "alice_in_empty = fst (on_message Buffer_from_hex server0 1 (join_msg [] ''alice''))"

definition alice_a_bob_b :: "string server" where
  "alice_a_bob_b = fst (on_message Buffer_from_hex alice_in_a 2 (join_msg ''b'' ''bob''))"

definition bob_joined_twice :: "string server" where
  "bob_joined_twice = fst (on_message Buffer_from_hex two_in_room 2 (join_msg ''r'' ''bob''))"

definition sync_42 :: json where
  "sync_42 =
     JObj [(''type'', JStr ''yt-sync''), (''room'', JStr ''r''), (''action'', JStr ''seek''),
           (''time'', JNum ''42.5'')]"

text \<open>The messages \<open>{"type":"yt-sync","action":"seek","time":1e400}\<close> and
  \<open>{"type":"signal","payload":1e400}\<close>, as parsed.\<close>

definition sync_overflow :: json where
  "sync_overflow =
     JObj [(''type'', JStr ''yt-sync''), (''action'', JStr ''seek''), (''time'', JNum ''Infinity'')]"



fun accepted :: "thrown + 'b \<Rightarrow> bool" where
  "accepted (Inr k) = True"
| "accepted (Inl e) = False"


text \<open>
  What a session array and the closure variables hold besides keys, and the states that
  agree on it.
\<close>

definition public :: "'b peer \<Rightarrow> conn \<times> jsval" where
  "public p = (ws p, userId p)"

definition low_eq :: "'b server \<Rightarrow> 'b server \<Rightarrow> bool" where
  "low_eq s t \<longleftrightarrow>
     (\<forall>r. map_option (map public) (rooms s r) = map_option (map public) (rooms t r))
     \<and> (\<forall>w. roomId (closures s w) = roomId (closures t w)
            \<and> var_userId (closures s w) = var_userId (closures t w))"





text \<open>Example values for the client: descriptions, platform outcomes, client states.\<close>

definition sdp_offer :: json where
  "sdp_offer = JObj [(''type'', JStr ''offer''), (''sdp'', JStr ''v=0 o=alice'')]"

definition sdp_answer :: json where
  "sdp_answer = JObj [(''type'', JStr ''answer''), (''sdp'', JStr ''v=0 o=bob'')]"

definition good_platform :: platform where
  "good_platform =
     \<lparr>createOffer = Some sdp_offer, createAnswer = Some sdp_answer,
      setLocalDescription = True, setRemoteDescription = True, addIceCandidate = True\<rparr>"

definition ready_client :: client where
  "ready_client =
     \<lparr>room = ''r'', username = ''bob'', isHost = False, wsReady = True, disableSync = False,
      error = None, wsRef = True, pcRef = True, ytPlayerRef = None\<rparr>"

definition paused_player :: player where
  "paused_player =
     \<lparr>playerState = Paused, currentTime = Some (JNum ''42.5''),
      video = Some (JStr ''dQw4w9WgXcQ'')\<rparr>"

definition paused_host :: client where
  "paused_host = ready_client\<lparr>isHost := True, ytPlayerRef := Some paused_player\<rparr>"

text \<open>The offers among a handler's calls: \<open>signal\<close> envelopes sent with an \<open>offer\<close> description.\<close>

fun is_offer_send :: "action \<Rightarrow> bool" where
  "is_offer_send (WsSend env) =
     (field env ''type'' = Some (JStr ''signal'') \<and>
      (case field env ''payload'' of
         None \<Rightarrow> False
       | Some payload \<Rightarrow>
          (case field payload ''sdp'' of
             None \<Rightarrow> False
           | Some sdp \<Rightarrow> field sdp ''type'' = Some (JStr ''offer''))))"
| "is_offer_send _ = False"

definition offers_sent :: "action list \<Rightarrow> nat" where
  "offers_sent as = length (filter is_offer_send as)"

definition relayed_offer :: json where
  "relayed_offer =
     JObj [(''type'', JStr ''signal''), (''from'', JStr ''alice''),
           (''payload'', JObj [(''sdp'', sdp_offer)])]"

definition play_event :: json where
  "play_event = JObj [(''type'', JStr ''yt-sync''), (''action'', JStr ''play'')]"

section \<open>Properties of the server\<close>

lemmas server_eval =
  on_message_def try_body_def join_branch_def relay_def server0_def new_closure_def
  rooms_get_def object_prototype_keys_def forEach_send_def signal_envelope_def
  joined_envelope_def yt_sync_envelope_def error_envelope_def on_close_def
  cannot_convert_def

subsection \<open>Written values\<close>

lemma map_of_stringified:
  "map_of (map (\<lambda>kv. (fst kv, stringified (snd kv))) kvs) f
     = map_option stringified (map_of kvs f)"
  by (induction kvs) auto

lemma field_stringified: "field (stringified d) f = map_option stringified (field d f)"
  by (cases d) (simp_all add: map_of_stringified)

lemma stringified_id: "written_as_is v \<Longrightarrow> stringified v = v"
proof (induction v)
  case (JArr xs)
  then have "map stringified xs = xs"
    by (intro map_idI) (simp add: list_all_iff)
  then show ?case by simp
next
  case (JObj kvs)
  have "(fst kv, stringified (snd kv)) = kv" if "kv \<in> set kvs" for kv
  proof -
    from that JObj.prems have "written_as_is (snd kv)" by (simp add: list_all_iff)
    moreover have "snd kv \<in> Basic_BNFs.snds kv" by (cases kv) simp
    ultimately have "stringified (snd kv) = snd kv" using JObj.IH that by blast
    then show ?thesis by (cases kv) simp
  qed
  then have "map (\<lambda>kv. (fst kv, stringified (snd kv))) kvs = kvs"
    by (intro map_idI)
  then show ?case by simp
qed simp_all

subsection \<open>What one message does\<close>

lemma relay_state: "fst (relay s w env) = s"
  by (auto simp: relay_def split: option.splits slot.splits)

lemma relay_sends:
  "(c, env') \<in> set (fst (snd (relay s w env))) \<Longrightarrow> c \<noteq> w \<and> env' = env"
  by (auto simp: relay_def forEach_send_def split: option.splits slot.splits)

lemma relay_own:
  "ToPropertyKey (roomId (closures s w)) = Some R \<Longrightarrow> rooms s R = Some l \<Longrightarrow>
   relay s w env = (s, forEach_send w env l, None)"
  by (simp add: relay_def rooms_get_def)

lemma on_message_fst: "fst (on_message bf s w m) = fst (try_body bf s w m)"
  by (cases "try_body bf s w m" rule: prod_cases3) (auto simp: on_message_def split: option.splits)

lemma try_body_not_join:
  "field data ''type'' \<noteq> Some (JStr ''join'') \<Longrightarrow> fst (try_body bf s w (Parsed data)) = s"
  by (simp add: try_body_def relay_state)

lemma on_message_not_join:
  "field data ''type'' \<noteq> Some (JStr ''join'') \<Longrightarrow> fst (on_message bf s w (Parsed data)) = s"
  by (simp add: on_message_fst try_body_not_join)

lemma on_message_malformed: "fst (on_message bf s w (Malformed msg)) = s"
  by (simp add: on_message_fst try_body_def)

lemma try_body_cases:
  "fst (try_body bf s w m) = s \<or> (\<exists>data. fst (try_body bf s w m) = fst (join_branch bf s w data))"
  by (cases m) (auto simp: try_body_def relay_state)

lemma run_single: "run bf s [Message w m] = Inr (on_message bf s w m)"
  by (simp add: case_prod_beta)

lemma join_branch_closures:
  "w' \<noteq> w \<Longrightarrow> closures (fst (join_branch bf s w data)) w' = closures s w'"
  by (auto simp: join_branch_def Let_def split: sum.splits option.splits slot.splits)

lemma join_branch_rooms:
  "\<exists>added. session_list (fst (join_branch bf s w data)) r = session_list s r @ added
           \<and> (\<forall>p \<in> set added. ws p = w) \<and> length added \<le> 1"
  by (auto simp: join_branch_def Let_def session_list_def rooms_get_def
           split: sum.splits option.splits slot.splits if_splits)

lemma on_message_closures:
  "w' \<noteq> w \<Longrightarrow> closures (fst (on_message bf s w m)) w' = closures s w'"
  using try_body_cases[of bf s w m] by (auto simp: on_message_fst join_branch_closures)

lemma on_message_rooms:
  "\<exists>added. session_list (fst (on_message bf s w m)) r = session_list s r @ added
           \<and> (\<forall>p \<in> set added. ws p = w) \<and> length added \<le> 1"
  using try_body_cases[of bf s w m] join_branch_rooms[of bf s w _ r]
  by (auto simp: on_message_fst)

lemma on_close_closures: "on_close s w = Inr s' \<Longrightarrow> closures s' = closures s"
  by (auto simp: on_close_def Let_def split: if_splits option.splits slot.splits)

lemma on_close_rooms:
  "on_close s w = Inr s' \<Longrightarrow>
   session_list s' r =
     (if truthy (roomId (closures s w)) \<and> ToPropertyKey (roomId (closures s w)) = Some r
      then filter (\<lambda>p. ws p \<noteq> w) (session_list s r) else session_list s r)"
  by (auto simp: on_close_def Let_def session_list_def rooms_get_def
           split: if_splits option.splits slot.splits)

lemma run_append:
  "run bf s (xs @ ys) = Inr (s', out) \<Longrightarrow>
   \<exists>s1 o1 o2. run bf s xs = Inr (s1, o1) \<and> run bf s1 ys = Inr (s', o2)"
proof (induction xs arbitrary: s out)
  case Nil
  then show ?case by simp
next
  case (Cons e xs)
  show ?case
  proof (cases e)
    case (Message w m)
    obtain s1 o1 where m1: "on_message bf s w m = (s1, o1)" by (cases "on_message bf s w m")
    with Cons.prems Message obtain o2 where "run bf s1 (xs @ ys) = Inr (s', o2)"
      by (auto split: sum.splits)
    from Cons.IH[OF this] Message m1 show ?thesis by auto
  next
    case (Close w)
    with Cons.prems obtain s1 where c1: "on_close s w = Inr s1"
      and "run bf s1 (xs @ ys) = Inr (s', out)"
      by (auto split: sum.splits)
    from Cons.IH[OF this(2)] Close c1 show ?thesis by auto
  qed
qed

subsection \<open>Relay fan-out\<close>

lemma is_relay_type_not_null: "is_relay_type data \<Longrightarrow> data \<noteq> JNull"
  by (auto simp: is_relay_type_def)

lemma on_message_relay:
  assumes "is_relay_type data"
      and "ToPropertyKey (roomId (closures s w)) = Some R"
      and "rooms s R = Some l"
  shows "on_message bf s w (Parsed data) = (s, forEach_send w (relayed_envelope s w data) l)"
  using assms is_relay_type_not_null[OF assms(1)]
  by (auto simp: on_message_def try_body_def relay_own relayed_envelope_def is_relay_type_def)

lemma copies_forEach_send:
  "copies_to c (forEach_send w env l) = (if c = w then 0 else entries_of c l)"
  by (induction l) (auto simp: copies_to_def forEach_send_def entries_of_def)

lemma entries_of_absent: "c \<notin> set (map ws l) \<Longrightarrow> entries_of c l = 0"
  by (induction l) (auto simp: entries_of_def)

lemma entries_of_distinct:
  "distinct (map ws l) \<Longrightarrow> c \<in> set (map ws l) \<Longrightarrow> entries_of c l = 1"
proof (induction l)
  case Nil
  then show ?case by simp
next
  case (Cons a l)
  show ?case
  proof (cases "ws a = c")
    case True
    with Cons.prems have "c \<notin> set (map ws l)" by auto
    then have "entries_of c l = 0" by (rule entries_of_absent)
    with True show ?thesis by (simp add: entries_of_def)
  next
    case False
    with Cons show ?thesis by (auto simp: entries_of_def)
  qed
qed

text \<open>
  C1, as the code has it. A \<open>signal\<close> or \<open>yt-sync\<close> envelope from connection \<open>w\<close>, whose room
  variable names a room \<open>R\<close> of the registry with peer array \<open>l\<close>, leaves the state as it is
  and sends the relayed envelope once for each element of \<open>l\<close> that belongs to another
  connection, in the array's order. So \<open>w\<close> gets no copy, another connection gets as many
  copies as it has entries in \<open>l\<close>, and exactly one when no connection has two entries.
\<close>

theorem relay_delivery:
  assumes "is_relay_type data"
      and "ToPropertyKey (roomId (closures s w)) = Some R"
      and "rooms s R = Some l"
  shows "on_message bf s w (Parsed data) = (s, forEach_send w (relayed_envelope s w data) l)
       \<and> copies_to w (snd (on_message bf s w (Parsed data))) = 0
       \<and> (\<forall>c. c \<noteq> w \<longrightarrow> copies_to c (snd (on_message bf s w (Parsed data))) = entries_of c l)
       \<and> (\<forall>c. c \<noteq> w \<and> c \<in> set (map ws l) \<and> distinct (map ws l) \<longrightarrow>
              copies_to c (snd (on_message bf s w (Parsed data))) = 1)"
  by (simp add: on_message_relay[OF assms] copies_forEach_send entries_of_distinct)

theorem relay_delivery_witness:
  "is_relay_type (JObj [(''type'', JStr ''signal''), (''payload'', JStr ''x'')])
   \<and> ToPropertyKey (roomId (closures two_in_room 1)) = Some ''r''
   \<and> map ws (session_list two_in_room ''r'') = [1, 2]
   \<and> on_message Buffer_from_hex two_in_room 1
         (Parsed (JObj [(''type'', JStr ''signal''), (''payload'', JStr ''x'')]))
       = (two_in_room,
          [(2, JObj [(''type'', JStr ''signal''), (''from'', JStr ''alice''),
                     (''payload'', JStr ''x'')])])
   \<and> copies_to 1 (snd (on_message Buffer_from_hex two_in_room 1
         (Parsed (JObj [(''type'', JStr ''signal''), (''payload'', JStr ''x'')])))) = 0
   \<and> copies_to 2 (snd (on_message Buffer_from_hex two_in_room 1
         (Parsed (JObj [(''type'', JStr ''signal''), (''payload'', JStr ''x'')])))) = 1"
proof -
  let ?d = "JObj [(''type'', JStr ''signal''), (''payload'', JStr ''x'')]"
  let ?l = "[\<lparr>ws = 1, userId = Some (JStr ''alice''), key = ''00''\<rparr>,
             \<lparr>ws = 2 :: nat, userId = Some (JStr ''bob''), key = ''00''\<rparr>]"
  have a: "is_relay_type ?d" by (simp add: is_relay_type_def)
  have b: "ToPropertyKey (roomId (closures two_in_room 1)) = Some ''r''"
    by (simp add: two_in_room_def join_msg_def server_eval)
  have c: "rooms two_in_room ''r'' = Some ?l"
    by (simp add: two_in_room_def join_msg_def server_eval)
  have d: "forEach_send 1 (relayed_envelope two_in_room 1 ?d) ?l
             = [(2, JObj [(''type'', JStr ''signal''), (''from'', JStr ''alice''),
                          (''payload'', JStr ''x'')])]"
    by (simp add: relayed_envelope_def two_in_room_def join_msg_def server_eval)
  from relay_delivery[OF a b c, of Buffer_from_hex] a b c d show ?thesis
    by (simp add: copies_to_def session_list_def)
qed

text \<open>
  Connection 1 joins room \<open>r\<close>, connection 2 joins it twice, connection 1 sends one \<open>signal\<close>:
  the peer array holds two entries for connection 2, and it is sent two copies.
\<close>

theorem relay_duplicate_counterexample:
  "map ws (session_list bob_joined_twice ''r'') = [1, 2, 2]
   \<and> copies_to 2 (snd (on_message Buffer_from_hex bob_joined_twice 1
        (Parsed (JObj [(''type'', JStr ''signal''), (''payload'', JStr ''x'')])))) = 2"
  by (simp add: bob_joined_twice_def two_in_room_def join_msg_def session_list_def copies_to_def
                server_eval)

subsection \<open>Rooms and their session arrays\<close>

lemma no_empty_room_server0: "no_empty_room server0"
  by (simp add: no_empty_room_def server0_def)

lemma no_empty_room_join:
  "no_empty_room s \<Longrightarrow> no_empty_room (fst (join_branch bf s w data))"
  by (auto simp: no_empty_room_def join_branch_def Let_def
           split: sum.splits option.splits slot.splits if_splits)

lemma no_empty_room_message:
  "no_empty_room s \<Longrightarrow> no_empty_room (fst (on_message bf s w m))"
  using try_body_cases[of bf s w m] by (auto simp: on_message_fst no_empty_room_join)

lemma no_empty_room_close:
  "no_empty_room s \<Longrightarrow> on_close s w = Inr s' \<Longrightarrow> no_empty_room s'"
  unfolding no_empty_room_def on_close_def Let_def
  by (fastforce split: if_splits option.splits slot.splits)

lemma no_empty_room_run:
  "no_empty_room s \<Longrightarrow> run bf s evs = Inr (s', out) \<Longrightarrow> no_empty_room s'"
proof (induction evs arbitrary: s out)
  case Nil
  then show ?case by simp
next
  case (Cons e evs)
  show ?case
  proof (cases e)
    case (Message w m)
    obtain s1 o1 where m1: "on_message bf s w m = (s1, o1)" by (cases "on_message bf s w m")
    with Cons.prems(2) Message obtain o2 where "run bf s1 evs = Inr (s', o2)"
      by (auto split: sum.splits)
    moreover have "no_empty_room s1"
      using no_empty_room_message[OF Cons.prems(1), of bf w m] m1 by simp
    ultimately show ?thesis using Cons.IH by blast
  next
    case (Close w)
    with Cons.prems(2) obtain s1
      where c1: "on_close s w = Inr s1" and "run bf s1 evs = Inr (s', out)"
      by (auto split: sum.splits)
    with Cons.IH no_empty_room_close[OF Cons.prems(1) c1] show ?thesis by blast
  qed
qed

lemma join_creates:
  assumes "field data ''type'' = Some (JStr ''join'')" and "bf (field data ''key'') = Inr k"
      and "ToPropertyKey (field data ''room'') = Some R" and "R \<notin> set object_prototype_keys"
  shows "rooms (fst (on_message bf s w (Parsed data))) R
           = Some (session_list s R @ [\<lparr>ws = w, userId = field data ''user'', key = k\<rparr>])"
proof -
  have "data \<noteq> JNull" using assms(1) by auto
  then have "fst (on_message bf s w (Parsed data)) = fst (join_branch bf s w data)"
    using assms(1) by (simp add: on_message_fst try_body_def)
  then show ?thesis using assms(2-4)
    by (auto simp: join_branch_def Let_def rooms_get_def session_list_def split: option.splits)
qed

lemma close_rooms:
  assumes "on_close s w = Inr s'"
  shows "(\<not> truthy (roomId (closures s w)) \<longrightarrow> rooms s' = rooms s)
       \<and> (\<forall>R. truthy (roomId (closures s w)) \<and> ToPropertyKey (roomId (closures s w)) = Some R
            \<longrightarrow> rooms s' = (rooms s)(R :=
                   if filter (\<lambda>p. ws p \<noteq> w) (session_list s R) = [] then None
                   else Some (filter (\<lambda>p. ws p \<noteq> w) (session_list s R))))"
  using assms
  by (auto simp: on_close_def Let_def rooms_get_def session_list_def
           split: option.splits if_splits)

lemma entry_persists:
  "run bf s1 evs = Inr (s, out) \<Longrightarrow> Close (ws p) \<notin> set evs \<Longrightarrow>
   p \<in> set (session_list s1 R) \<Longrightarrow> p \<in> set (session_list s R)"
proof (induction evs arbitrary: s1 out)
  case Nil
  then show ?case by simp
next
  case (Cons e evs)
  show ?case
  proof (cases e)
    case (Message w m)
    obtain s2 o1 where m1: "on_message bf s1 w m = (s2, o1)" by (cases "on_message bf s1 w m")
    with Cons.prems(1) Message obtain o2 where r: "run bf s2 evs = Inr (s, o2)"
      by (auto split: sum.splits)
    from on_message_rooms[of bf s1 w m R] m1 Cons.prems(3)
    have "p \<in> set (session_list s2 R)" by auto
    with Cons.IH[OF r] Cons.prems(2) show ?thesis by simp
  next
    case (Close w)
    with Cons.prems(1) obtain s2 where c1: "on_close s1 w = Inr s2"
      and r: "run bf s2 evs = Inr (s, out)"
      by (auto split: sum.splits)
    from Cons.prems(2) Close have "ws p \<noteq> w" by auto
    with on_close_rooms[OF c1, of R] Cons.prems(3)
    have "p \<in> set (session_list s2 R)" by (auto split: if_splits)
    with Cons.IH[OF r] Cons.prems(2) show ?thesis by simp
  qed
qed

lemma joined_stays:
  assumes run: "run bf s0 (evs1 @ Message w (Parsed data) # evs2) = Inr (s, out)"
      and j: "field data ''type'' = Some (JStr ''join'')" "bf (field data ''key'') = Inr k"
        "ToPropertyKey (field data ''room'') = Some R" "R \<notin> set object_prototype_keys"
      and open_: "Close w \<notin> set evs2"
  shows "\<lparr>ws = w, userId = field data ''user'', key = k\<rparr> \<in> set (session_list s R)"
proof -
  let ?p = "\<lparr>ws = w, userId = field data ''user'', key = k\<rparr>"
  from run_append[OF run] obtain s1 o1 o2 where
    r2: "run bf s1 (Message w (Parsed data) # evs2) = Inr (s, o2)" by blast
  obtain s2 oj where m: "on_message bf s1 w (Parsed data) = (s2, oj)"
    by (cases "on_message bf s1 w (Parsed data)")
  with r2 obtain o3 where r3: "run bf s2 evs2 = Inr (s, o3)" by (auto split: sum.splits)
  from join_creates[where bf = bf and s = s1 and w = w, OF j] m
  have "?p \<in> set (session_list s2 R)"
    by (simp add: session_list_def)
  with entry_persists[OF r3, of ?p R] open_ show ?thesis by simp
qed

text \<open>
  C2, as the code has it. After any sequence of messages and closes that the server has
  processed from its start without an uncaught exception, no room is stored with an empty
  array (a room code is in the registry if and only if the array stored for it is
  non-empty), and every connection whose join reached the registry and that has not
  closed since has its session in the array of the room it joined, so that room is
  present. A join that reaches the registry (its key is accepted, its room code is not a
  name that \<open>rooms\<close> inherits) appends its session to the room's array, which creates the
  room when it was absent. A close of a connection whose room variable is falsy changes
  no room; otherwise it filters the connection out of the one room its room variable
  names, deletes that room when nothing is left, and leaves every other room as it is.
  So the array of a room may hold sessions of closed connections only.
\<close>

theorem registry_rooms:
  assumes "run bf server0 evs = Inr (s, out)"
  shows "rooms s r \<noteq> Some []
       \<and> (\<forall>evs1 evs2 w data k R.
             evs = evs1 @ Message w (Parsed data) # evs2
             \<and> field data ''type'' = Some (JStr ''join'') \<and> bf (field data ''key'') = Inr k
             \<and> ToPropertyKey (field data ''room'') = Some R \<and> R \<notin> set object_prototype_keys
             \<and> Close w \<notin> set evs2
           \<longrightarrow> \<lparr>ws = w, userId = field data ''user'', key = k\<rparr> \<in> set (session_list s R)
               \<and> rooms s R \<noteq> None)
       \<and> (\<forall>w data k R. field data ''type'' = Some (JStr ''join'') \<and> bf (field data ''key'') = Inr k
             \<and> ToPropertyKey (field data ''room'') = Some R \<and> R \<notin> set object_prototype_keys
           \<longrightarrow> rooms (fst (on_message bf s w (Parsed data))) R
                 = Some (session_list s R @ [\<lparr>ws = w, userId = field data ''user'', key = k\<rparr>]))
       \<and> (\<forall>w s'. on_close s w = Inr s'
           \<longrightarrow> (\<not> truthy (roomId (closures s w)) \<longrightarrow> rooms s' = rooms s)
             \<and> (\<forall>R. truthy (roomId (closures s w))
                     \<and> ToPropertyKey (roomId (closures s w)) = Some R
                  \<longrightarrow> rooms s' = (rooms s)(R :=
                         if filter (\<lambda>p. ws p \<noteq> w) (session_list s R) = [] then None
                         else Some (filter (\<lambda>p. ws p \<noteq> w) (session_list s R)))))"
proof -
  have "no_empty_room s" using no_empty_room_run[OF no_empty_room_server0 assms] .
  then have a: "rooms s r \<noteq> Some []" by (auto simp: no_empty_room_def)
  have b: "\<lparr>ws = w, userId = field data ''user'', key = k\<rparr> \<in> set (session_list s R)
           \<and> rooms s R \<noteq> None"
    if "evs = evs1 @ Message w (Parsed data) # evs2"
      "field data ''type'' = Some (JStr ''join'')" "bf (field data ''key'') = Inr k"
      "ToPropertyKey (field data ''room'') = Some R" "R \<notin> set object_prototype_keys"
      "Close w \<notin> set evs2" for evs1 evs2 w data k R
  proof -
    from joined_stays[of bf server0 evs1 w data evs2 s out k R] assms that
    have "\<lparr>ws = w, userId = field data ''user'', key = k\<rparr> \<in> set (session_list s R)" by simp
    then show ?thesis by (cases "rooms s R") (simp_all add: session_list_def)
  qed
  from a b join_creates[where bf = bf and s = s] close_rooms[where s = s]
  show ?thesis by blast
qed

theorem registry_rooms_witness:
  "run Buffer_from_hex server0
       ([] @ Message 1 (join_msg ''a'' ''alice'') # [Message 2 (join_msg ''b'' ''bob'')])
     = Inr (alice_a_bob_b, [(1, JObj [(''type'', JStr ''joined''), (''room'', JStr ''a'')]),
                            (2, JObj [(''type'', JStr ''joined''), (''room'', JStr ''b'')])])
   \<and> Close 1 \<notin> set [Message 2 (join_msg ''b'' ''bob'')]
   \<and> rooms alice_a_bob_b ''a'' \<noteq> Some []
   \<and> \<lparr>ws = 1, userId = Some (JStr ''alice''), key = ''00''\<rparr> \<in> set (session_list alice_a_bob_b ''a'')
   \<and> rooms alice_a_bob_b ''a'' \<noteq> None
   \<and> rooms (fst (on_message Buffer_from_hex alice_a_bob_b 3 (join_msg ''c'' ''carol''))) ''c''
       = Some [\<lparr>ws = 3, userId = Some (JStr ''carol''), key = ''00''\<rparr>]
   \<and> truthy (roomId (closures alice_a_bob_b 1))
   \<and> ToPropertyKey (roomId (closures alice_a_bob_b 1)) = Some ''a''
   \<and> on_close alice_a_bob_b 1 = Inr (alice_a_bob_b\<lparr>rooms := (rooms alice_a_bob_b)(''a'' := None)\<rparr>)
   \<and> \<not> truthy (roomId (closures alice_a_bob_b 3))
   \<and> on_close alice_a_bob_b 3 = Inr alice_a_bob_b"
proof -
  let ?ja = "JObj [(''type'', JStr ''join''), (''room'', JStr ''a''), (''user'', JStr ''alice''),
                   (''key'', JStr ''00'')]"
  let ?jc = "JObj [(''type'', JStr ''join''), (''room'', JStr ''c''), (''user'', JStr ''carol''),
                   (''key'', JStr ''00'')]"
  let ?s' = "alice_a_bob_b\<lparr>rooms := (rooms alice_a_bob_b)(''a'' := None)\<rparr>"
  have r: "run Buffer_from_hex server0
       ([] @ Message 1 (join_msg ''a'' ''alice'') # [Message 2 (join_msg ''b'' ''bob'')])
     = Inr (alice_a_bob_b, [(1, JObj [(''type'', JStr ''joined''), (''room'', JStr ''a'')]),
                            (2, JObj [(''type'', JStr ''joined''), (''room'', JStr ''b'')])])"
    by (simp add: alice_a_bob_b_def alice_in_a_def join_msg_def case_prod_beta server_eval)
  note th = registry_rooms[OF r]
  have ja: "field ?ja ''type'' = Some (JStr ''join'')"
    "Buffer_from_hex (field ?ja ''key'') = Inr ''00''"
    "ToPropertyKey (field ?ja ''room'') = Some ''a''"
    "''a'' \<notin> set object_prototype_keys"
    by (simp_all add: object_prototype_keys_def)
  have jc: "field ?jc ''type'' = Some (JStr ''join'')"
    "Buffer_from_hex (field ?jc ''key'') = Inr ''00''"
    "ToPropertyKey (field ?jc ''room'') = Some ''c''"
    "''c'' \<notin> set object_prototype_keys"
    by (simp_all add: object_prototype_keys_def)
  have op: "Close 1 \<notin> set [Message 2 (join_msg ''b'' ''bob'')]" by simp
  have ev: "[] @ Message 1 (join_msg ''a'' ''alice'') # [Message 2 (join_msg ''b'' ''bob'')]
            = [] @ Message 1 (Parsed ?ja) # [Message 2 (join_msg ''b'' ''bob'')]"
    by (simp add: join_msg_def)
  have 1: "rooms alice_a_bob_b ''a'' \<noteq> Some []" using th[of "''a''"] by blast
  have 2: "\<lparr>ws = 1, userId = field ?ja ''user'', key = ''00''\<rparr> \<in> set (session_list alice_a_bob_b ''a'')
           \<and> rooms alice_a_bob_b ''a'' \<noteq> None"
    using th[of "''a''", THEN conjunct2, THEN conjunct1, rule_format,
             OF conjI[OF ev conjI[OF ja(1) conjI[OF ja(2) conjI[OF ja(3) conjI[OF ja(4) op]]]]]] .
  have 3: "rooms (fst (on_message Buffer_from_hex alice_a_bob_b 3 (Parsed ?jc))) ''c''
       = Some (session_list alice_a_bob_b ''c''
               @ [\<lparr>ws = 3, userId = field ?jc ''user'', key = ''00''\<rparr>])"
    using th[of "''a''", THEN conjunct2, THEN conjunct2, THEN conjunct1, rule_format,
             where w = 3, OF conjI[OF jc(1) conjI[OF jc(2) conjI[OF jc(3) jc(4)]]]] .
  have c: "on_close alice_a_bob_b 1 = Inr ?s'"
    and c3: "on_close alice_a_bob_b 3 = Inr alice_a_bob_b"
    and t: "truthy (roomId (closures alice_a_bob_b 1))"
    and k: "ToPropertyKey (roomId (closures alice_a_bob_b 1)) = Some ''a''"
    and f: "\<not> truthy (roomId (closures alice_a_bob_b 3))"
    by (simp_all add: alice_a_bob_b_def alice_in_a_def join_msg_def server_eval)
  note cl = th[of "''a''", THEN conjunct2, THEN conjunct2, THEN conjunct2, rule_format]
  have 4: "rooms ?s' = (rooms alice_a_bob_b)(''a'' :=
             if filter (\<lambda>p. ws p \<noteq> 1) (session_list alice_a_bob_b ''a'') = [] then None
             else Some (filter (\<lambda>p. ws p \<noteq> 1) (session_list alice_a_bob_b ''a'')))"
    using cl[OF c, THEN conjunct2, rule_format, OF conjI[OF t k]] .
  have 5: "session_list alice_a_bob_b ''c'' = []"
    by (simp add: alice_a_bob_b_def alice_in_a_def join_msg_def session_list_def server_eval)
  from r op 1 2 3 4 5 c c3 t k f show ?thesis by (simp add: join_msg_def)
qed

text \<open>
  Connection 1 joins the room with the empty code and closes: the close skips the
  registry, and the room stays with the session of the closed connection. Connection 1
  joins room \<open>a\<close>, then room \<open>b\<close>, and closes: room \<open>b\<close> is deleted and room \<open>a\<close> stays
  with the session of the closed connection. In both runs a room is present although no
  open connection is in it.
\<close>

theorem stale_room_counterexample:
  "run Buffer_from_hex server0 [Message 1 (join_msg [] ''alice''), Close 1]
     = Inr (alice_in_empty, [(1, JObj [(''type'', JStr ''joined''), (''room'', JStr [])])])
   \<and> map ws (session_list alice_in_empty []) = [1]
   \<and> run Buffer_from_hex server0
         [Message 1 (join_msg ''a'' ''alice''), Message 1 (join_msg ''b'' ''alice''), Close 1]
     = Inr (left_in_a, [(1, JObj [(''type'', JStr ''joined''), (''room'', JStr ''a'')]),
                        (1, JObj [(''type'', JStr ''joined''), (''room'', JStr ''b'')])])
   \<and> map ws (session_list left_in_a ''a'') = [1]
   \<and> rooms left_in_a ''b'' = None"
  by (simp add: alice_in_empty_def left_in_a_def joined_a_then_b_def alice_in_a_def join_msg_def
                session_list_def case_prod_beta server_eval)

subsection \<open>Malformed and unknown messages\<close>

text \<open>
  C3, as the code has it. A message that is not JSON, or that is the JSON value \<open>null\<close>,
  makes the handler throw: the sender, and nobody else, is sent one \<open>error\<close> envelope
  with the exception's message, and the state stays as it is. A JSON value whose \<open>type\<close> is
  missing or is none of \<open>join\<close>, \<open>signal\<close>, \<open>yt-sync\<close> matches no branch: nothing is sent
  and the state stays as it is. The handler only sends; it closes no connection.
\<close>

theorem malformed_reply:
  "on_message bf s w (Malformed msg) = (s, [(w, error_envelope (SyntaxError msg))])
   \<and> on_message bf s w (Parsed JNull)
       = (s, [(w, error_envelope (TypeError ''Cannot read properties of null (reading 'type')''))])
   \<and> (data \<noteq> JNull \<and> field data ''type'' \<notin> known_types
        \<longrightarrow> on_message bf s w (Parsed data) = (s, []))"
  by (simp add: on_message_def try_body_def known_types_def)

theorem malformed_reply_witness:
  "JObj [] \<noteq> JNull \<and> field (JObj []) ''type'' \<notin> known_types
   \<and> on_message Buffer_from_hex server0 1 (Malformed ''Unexpected token'')
       = (server0, [(1, JObj [(''type'', JStr ''error''), (''message'', JStr ''Unexpected token'')])])
   \<and> on_message Buffer_from_hex server0 1 (Parsed (JObj [])) = (server0, [])"
  using malformed_reply[of Buffer_from_hex server0 1 "''Unexpected token''" "JObj []"]
  by (simp add: known_types_def error_envelope_def)

text \<open>The message \<open>{"type":"ping"}\<close> gets no reply at all.\<close>

theorem unknown_type_counterexample:
  "on_message Buffer_from_hex server0 1 (Parsed (JObj [(''type'', JStr ''ping'')])) = (server0, [])"
  by (simp add: on_message_def try_body_def)

subsection \<open>One connection, several rooms\<close>

text \<open>
  C6, as the code has it. A message that is not a \<open>join\<close> changes nothing. A \<open>join\<close> from
  connection \<open>w\<close> sets \<open>w\<close>'s room variable to the room it names and its user variable to
  the user it names, whether or not it then succeeds. When it succeeds (the key is
  accepted, the room code is not a name that \<open>rooms\<close> inherits) it appends one session of
  \<open>w\<close> to the array of the room it names and leaves every other room as it is, so a
  session made by an earlier join stays where it is. When it fails (the key is rejected,
  or the room code has no property key, or it is an inherited name) the registry stays as
  it is. No message changes another connection's variables. A close changes no variables
  and removes \<open>w\<close>'s sessions from the one room its room variable names at that moment,
  when that name is truthy.
\<close>

theorem registration_changes:
  "(field data ''type'' \<noteq> Some (JStr ''join'') \<longrightarrow> fst (on_message bf s w (Parsed data)) = s)
   \<and> fst (on_message bf s w (Malformed msg)) = s
   \<and> (field data ''type'' = Some (JStr ''join'')
        \<longrightarrow> roomId (closures (fst (on_message bf s w (Parsed data))) w) = field data ''room''
          \<and> var_userId (closures (fst (on_message bf s w (Parsed data))) w) = field data ''user'')
   \<and> (\<forall>k R. field data ''type'' = Some (JStr ''join'') \<and> bf (field data ''key'') = Inr k
          \<and> ToPropertyKey (field data ''room'') = Some R \<and> R \<notin> set object_prototype_keys
        \<longrightarrow> rooms (fst (on_message bf s w (Parsed data)))
              = (rooms s)(R \<mapsto> session_list s R
                                @ [\<lparr>ws = w, userId = field data ''user'', key = k\<rparr>]))
   \<and> (field data ''type'' = Some (JStr ''join'')
        \<and> (\<not> accepted (bf (field data ''key'')) \<or> ToPropertyKey (field data ''room'') = None
           \<or> (\<exists>R. ToPropertyKey (field data ''room'') = Some R
                  \<and> rooms_get (rooms s) R = Inherited))
        \<longrightarrow> rooms (fst (on_message bf s w (Parsed data))) = rooms s)
   \<and> (\<forall>w'. w' \<noteq> w \<longrightarrow> closures (fst (on_message bf s w m)) w' = closures s w')
   \<and> (\<forall>s'. on_close s w = Inr s' \<longrightarrow> closures s' = closures s
        \<and> (\<forall>r. session_list s' r =
             (if truthy (roomId (closures s w)) \<and> ToPropertyKey (roomId (closures s w)) = Some r
              then filter (\<lambda>p. ws p \<noteq> w) (session_list s r) else session_list s r)))"
proof -
  have jb: "fst (on_message bf s w (Parsed data)) = fst (join_branch bf s w data)"
    if "field data ''type'' = Some (JStr ''join'')"
  proof -
    from that have "data \<noteq> JNull" by auto
    with that show ?thesis by (simp add: on_message_fst try_body_def)
  qed
  have 3: "roomId (closures (fst (on_message bf s w (Parsed data))) w) = field data ''room''
         \<and> var_userId (closures (fst (on_message bf s w (Parsed data))) w) = field data ''user''"
    if "field data ''type'' = Some (JStr ''join'')"
    unfolding jb[OF that]
    by (auto simp: join_branch_def Let_def split: sum.splits option.splits slot.splits)
  have 4: "rooms (fst (on_message bf s w (Parsed data)))
              = (rooms s)(R \<mapsto> session_list s R
                                @ [\<lparr>ws = w, userId = field data ''user'', key = k\<rparr>])"
    if "field data ''type'' = Some (JStr ''join'')" "bf (field data ''key'') = Inr k"
      "ToPropertyKey (field data ''room'') = Some R" "R \<notin> set object_prototype_keys" for k R
    unfolding jb[OF that(1)] using that(2-4)
    by (auto simp: join_branch_def Let_def rooms_get_def session_list_def split: option.splits)
  have 5: "rooms (fst (on_message bf s w (Parsed data))) = rooms s"
    if "field data ''type'' = Some (JStr ''join'')"
      "\<not> accepted (bf (field data ''key'')) \<or> ToPropertyKey (field data ''room'') = None
       \<or> (\<exists>R. ToPropertyKey (field data ''room'') = Some R \<and> rooms_get (rooms s) R = Inherited)"
    unfolding jb[OF that(1)] using that(2)
    by (cases "bf (field data ''key'')")
       (auto simp: join_branch_def Let_def split: option.splits slot.splits)
  from 3 4 5 on_message_not_join[of data bf s w] on_message_malformed[of bf s w msg]
    on_message_closures[of _ w bf s m] on_close_closures[of s w] on_close_rooms[of s w]
  show ?thesis by blast
qed

theorem registration_changes_witness:
  "field (JObj [(''type'', JStr ''signal'')]) ''type'' \<noteq> Some (JStr ''join'')
   \<and> fst (on_message Buffer_from_hex alice_in_a 1 (Parsed (JObj [(''type'', JStr ''signal'')])))
       = alice_in_a
   \<and> roomId (closures alice_in_a 1) = Some (JStr ''a'')
   \<and> roomId (closures joined_a_then_b 1) = Some (JStr ''b'')
   \<and> rooms joined_a_then_b
       = (rooms alice_in_a)(''b'' \<mapsto> [\<lparr>ws = 1, userId = Some (JStr ''alice''), key = ''00''\<rparr>])
   \<and> map ws (session_list joined_a_then_b ''a'') = [1]
   \<and> closures joined_a_then_b 2 = closures alice_in_a 2
   \<and> \<not> accepted (Buffer_from_hex (field (JObj [(''type'', JStr ''join''), (''room'', JStr ''b'')])
                                      ''key''))
   \<and> rooms (fst (on_message Buffer_from_hex alice_in_a 1
                (Parsed (JObj [(''type'', JStr ''join''), (''room'', JStr ''b'')]))))
       = rooms alice_in_a
   \<and> roomId (closures (fst (on_message Buffer_from_hex alice_in_a 1
                (Parsed (JObj [(''type'', JStr ''join''), (''room'', JStr ''b'')])))) 1)
       = Some (JStr ''b'')
   \<and> on_close alice_in_a 1 = Inr (alice_in_a\<lparr>rooms := (rooms alice_in_a)(''a'' := None)\<rparr>)
   \<and> closures (alice_in_a\<lparr>rooms := (rooms alice_in_a)(''a'' := None)\<rparr>) = closures alice_in_a
   \<and> session_list (alice_in_a\<lparr>rooms := (rooms alice_in_a)(''a'' := None)\<rparr>) ''a'' = []"
proof -
  let ?sig = "JObj [(''type'', JStr ''signal'')]"
  let ?jb = "JObj [(''type'', JStr ''join''), (''room'', JStr ''b''), (''user'', JStr ''alice''),
                   (''key'', JStr ''00'')]"
  let ?nk = "JObj [(''type'', JStr ''join''), (''room'', JStr ''b'')]"
  let ?s' = "alice_in_a\<lparr>rooms := (rooms alice_in_a)(''a'' := None)\<rparr>"
  note sig = registration_changes[of ?sig Buffer_from_hex alice_in_a 1 "''x''"
      "join_msg ''b'' ''alice''"]
  note jb = registration_changes[of ?jb Buffer_from_hex alice_in_a 1 "''x''" "Parsed ?jb"]
  note nk = registration_changes[of ?nk Buffer_from_hex alice_in_a 1 "''x''" "Parsed ?nk"]
  have a: "field ?sig ''type'' \<noteq> Some (JStr ''join'')" by simp
  have j: "field ?jb ''type'' = Some (JStr ''join'')"
    "Buffer_from_hex (field ?jb ''key'') = Inr ''00''"
    "ToPropertyKey (field ?jb ''room'') = Some ''b''"
    "''b'' \<notin> set object_prototype_keys"
    by (simp_all add: object_prototype_keys_def)
  have n: "field ?nk ''type'' = Some (JStr ''join'')"
    "\<not> accepted (Buffer_from_hex (field ?nk ''key''))"
    by simp_all
  have c: "on_close alice_in_a 1 = Inr ?s'"
    by (simp add: alice_in_a_def join_msg_def server_eval)
  have ab: "joined_a_then_b = fst (on_message Buffer_from_hex alice_in_a 1 (Parsed ?jb))"
    by (simp add: joined_a_then_b_def join_msg_def)
  have 1: "fst (on_message Buffer_from_hex alice_in_a 1 (Parsed ?sig)) = alice_in_a"
    using sig a by blast
  have 2: "roomId (closures joined_a_then_b 1) = field ?jb ''room''"
    unfolding ab using jb j(1) by blast
  have 3: "rooms joined_a_then_b
       = (rooms alice_in_a)(''b'' \<mapsto> session_list alice_in_a ''b''
            @ [\<lparr>ws = 1, userId = field ?jb ''user'', key = ''00''\<rparr>])"
    unfolding ab using jb j by blast
  have 4: "closures joined_a_then_b 2 = closures alice_in_a 2"
    using sig unfolding joined_a_then_b_def by auto
  have 5: "rooms (fst (on_message Buffer_from_hex alice_in_a 1 (Parsed ?nk))) = rooms alice_in_a"
    using nk n by blast
  have 6: "roomId (closures (fst (on_message Buffer_from_hex alice_in_a 1 (Parsed ?nk))) 1)
             = field ?nk ''room''"
    using nk n(1) by blast
  have 7: "closures ?s' = closures alice_in_a"
    using sig c by blast
  have 8: "session_list alice_in_a ''b'' = []" "roomId (closures alice_in_a 1) = Some (JStr ''a'')"
    "map ws (session_list alice_in_a ''a'') = [1]"
    by (simp_all add: alice_in_a_def join_msg_def session_list_def server_eval)
  have 9: "session_list ?s' ''a'' = []" by (simp add: session_list_def)
  from a n(2) c 1 2 3 4 5 6 7 8 9 show ?thesis by (simp add: session_list_def)
qed

text \<open>
  Connection 1 joins room \<open>a\<close> and then room \<open>b\<close>: its room variable goes from \<open>a\<close> to \<open>b\<close>,
  and it is registered in both rooms.
\<close>

theorem rejoin_counterexample:
  "roomId (closures alice_in_a 1) = Some (JStr ''a'')
   \<and> roomId (closures joined_a_then_b 1) = Some (JStr ''b'')
   \<and> map ws (session_list joined_a_then_b ''a'') = [1]
   \<and> map ws (session_list joined_a_then_b ''b'') = [1]"
  by (simp add: joined_a_then_b_def alice_in_a_def join_msg_def session_list_def server_eval)

subsection \<open>The relayed sync envelope\<close>

lemma yt_sync_envelope_field:
  "field (yt_sync_envelope data) f =
     (if f = ''type'' then Some (JStr ''yt-sync'')
      else if f \<in> {''action'', ''time'', ''videoId''}
        then map_option stringified (field data f) else None)"
  by (cases "field data ''action''"; cases "field data ''time''"; cases "field data ''videoId''")
     (auto simp: yt_sync_envelope_def)

text \<open>
  C10. Whatever a \<open>yt-sync\<close> message makes the server send to a connection other than the
  sender is the object built from the message's \<open>action\<close>, \<open>time\<close> and \<open>videoId\<close> alone: its
  \<open>type\<close> is \<open>yt-sync\<close>, each of the three fields is the inbound one as \<open>JSON.stringify\<close>
  writes it, for every action (absent exactly when the inbound one is; the inbound value
  itself when it is written as it is, \<open>null\<close> for a number that is not finite), and it has
  no other field, so no \<open>room\<close> and no \<open>from\<close>. Neither the sender's variables nor the
  registry enter it.
\<close>

theorem yt_sync_relay_fields:
  assumes "field data ''type'' = Some (JStr ''yt-sync'')"
      and "(c, env) \<in> set (snd (on_message bf s w (Parsed data)))"
      and "c \<noteq> w"
  shows "env = yt_sync_envelope data
       \<and> (\<forall>f. field env f =
            (if f = ''type'' then Some (JStr ''yt-sync'')
             else if f \<in> {''action'', ''time'', ''videoId''}
               then map_option stringified (field data f) else None))
       \<and> (\<forall>f. f \<in> {''action'', ''time'', ''videoId''}
             \<longrightarrow> (field env f = None) = (field data f = None))
       \<and> (\<forall>f v. f \<in> {''action'', ''time'', ''videoId''} \<and> field data f = Some v \<and> written_as_is v
             \<longrightarrow> field env f = Some v)"
proof -
  have nn: "data \<noteq> JNull" using assms(1) by auto
  obtain s' out e where r: "relay s w (yt_sync_envelope data) = (s', out, e)"
    by (cases "relay s w (yt_sync_envelope data)") auto
  have tb: "try_body bf s w (Parsed data) = (s', out, e)"
    using assms(1) nn r by (simp add: try_body_def)
  have "(c, env) \<in> set out"
    using assms(2,3) tb by (cases e) (auto simp: on_message_def)
  with relay_sends[of c env s w "yt_sync_envelope data"] r
  have "env = yt_sync_envelope data" by simp
  then show ?thesis by (auto simp: yt_sync_envelope_field stringified_id)
qed

theorem yt_sync_relay_fields_witness:
  "field sync_42 ''type'' = Some (JStr ''yt-sync'')
   \<and> (2, JObj [(''type'', JStr ''yt-sync''), (''action'', JStr ''seek''), (''time'', JNum ''42.5'')])
        \<in> set (snd (on_message Buffer_from_hex two_in_room 1 (Parsed sync_42)))
   \<and> (2::nat) \<noteq> 1
   \<and> JObj [(''type'', JStr ''yt-sync''), (''action'', JStr ''seek''), (''time'', JNum ''42.5'')]
        = yt_sync_envelope sync_42
   \<and> field (JObj [(''type'', JStr ''yt-sync''), (''action'', JStr ''seek''),
                  (''time'', JNum ''42.5'')]) ''room'' = None
   \<and> field (JObj [(''type'', JStr ''yt-sync''), (''action'', JStr ''seek''),
                  (''time'', JNum ''42.5'')]) ''from'' = None
   \<and> field sync_42 ''time'' = Some (JNum ''42.5'') \<and> written_as_is (JNum ''42.5'')
   \<and> field sync_overflow ''type'' = Some (JStr ''yt-sync'')
   \<and> (2, JObj [(''type'', JStr ''yt-sync''), (''action'', JStr ''seek''), (''time'', JNull)])
        \<in> set (snd (on_message Buffer_from_hex two_in_room 1 (Parsed sync_overflow)))
   \<and> map_option stringified (field sync_overflow ''time'') = Some JNull"
proof -
  let ?e = "JObj [(''type'', JStr ''yt-sync''), (''action'', JStr ''seek''),
                  (''time'', JNum ''42.5'')]"
  let ?n = "JObj [(''type'', JStr ''yt-sync''), (''action'', JStr ''seek''), (''time'', JNull)]"
  have a: "field sync_42 ''type'' = Some (JStr ''yt-sync'')" by (simp add: sync_42_def)
  have b: "(2, ?e) \<in> set (snd (on_message Buffer_from_hex two_in_room 1 (Parsed sync_42)))"
    by (simp add: sync_42_def two_in_room_def join_msg_def finite_number_def server_eval)
  have c: "(2::nat) \<noteq> 1" by simp
  have d: "field sync_42 ''time'' = Some (JNum ''42.5'')" "written_as_is (JNum ''42.5'')"
    by (simp_all add: sync_42_def finite_number_def)
  have a': "field sync_overflow ''type'' = Some (JStr ''yt-sync'')"
    by (simp add: sync_overflow_def)
  have b': "(2, ?n) \<in> set (snd (on_message Buffer_from_hex two_in_room 1 (Parsed sync_overflow)))"
    by (simp add: sync_overflow_def two_in_room_def join_msg_def finite_number_def server_eval)
  from yt_sync_relay_fields[OF a b c] yt_sync_relay_fields[OF a' b' c] a b d a' b'
  show ?thesis
    by (simp add: sync_42_def sync_overflow_def yt_sync_envelope_def finite_number_def)
qed

section \<open>Keys and relayed envelopes\<close>










lemma low_eq_append:
  assumes "low_eq s t" "map public l = map public l'" "public p = public p'"
    "\<forall>w. roomId (cs w) = roomId (ct w) \<and> var_userId (cs w) = var_userId (ct w)"
  shows "low_eq (s\<lparr>closures := cs, rooms := (rooms s)(r \<mapsto> l @ [p])\<rparr>)
                (t\<lparr>closures := ct, rooms := (rooms t)(r \<mapsto> l' @ [p'])\<rparr>)"
  using assms by (auto simp: low_eq_def)

lemma low_eq_closures:
  assumes "low_eq s t"
    "\<forall>w. roomId (cs w) = roomId (ct w) \<and> var_userId (cs w) = var_userId (ct w)"
  shows "low_eq (s\<lparr>closures := cs\<rparr>) (t\<lparr>closures := ct\<rparr>)"
  using assms by (auto simp: low_eq_def)












section \<open>Properties of the client\<close>

lemmas client_eval =
  startCall_def onmessage_def on_signal_def on_sdp_def on_yt_sync_def client_signal_def
  message_failed_def periodic_sync_tick_def periodic_sync_installed_def seek_envelope_def
  playVideo_def pauseVideo_def seekTo_def loadVideoById_def getCurrentTime_def

lemma stringified_sdp: "stringified sdp_offer = sdp_offer" "stringified sdp_answer = sdp_answer"
  by (simp_all add: sdp_offer_def sdp_answer_def)

subsection \<open>Starting a call\<close>

text \<open>
  C4, as the code has it. \<open>startCall\<close> keeps no record of an offer: whenever the socket is
  ready, the peer connection and the socket exist and the two platform calls succeed, it
  creates an offer, sets it as the local description and sends it, and leaves the client
  ready to do the same again at the next press.
\<close>

theorem start_call_sends_offer:
  assumes "wsReady c" and "pcRef c" and "wsRef c"
      and "createOffer pf = Some offer" and "setLocalDescription pf"
  shows "startCall pf c =
           (c\<lparr>isHost := True\<rparr>,
            [CreateOffer, SetLocalDescription offer, WsSend (client_signal c [(''sdp'', offer)])])
       \<and> wsReady (fst (startCall pf c)) \<and> pcRef (fst (startCall pf c))
       \<and> wsRef (fst (startCall pf c))
       \<and> (field offer ''type'' = Some (JStr ''offer'')
            \<longrightarrow> offers_sent (snd (startCall pf c)) = 1)"
  using assms by (simp add: startCall_def offers_sent_def client_signal_def field_stringified)

theorem start_call_sends_offer_witness:
  "wsReady ready_client \<and> pcRef ready_client \<and> wsRef ready_client
   \<and> createOffer good_platform = Some sdp_offer \<and> setLocalDescription good_platform
   \<and> field sdp_offer ''type'' = Some (JStr ''offer'')
   \<and> snd (startCall good_platform ready_client)
       = [CreateOffer, SetLocalDescription sdp_offer,
          WsSend (JObj [(''type'', JStr ''signal''), (''room'', JStr ''r''), (''user'', JStr ''bob''),
                        (''payload'', JObj [(''sdp'', sdp_offer)])])]
   \<and> offers_sent (snd (startCall good_platform ready_client)) = 1"
proof -
  have a: "wsReady ready_client" "pcRef ready_client" "wsRef ready_client"
    by (simp_all add: ready_client_def)
  have b: "createOffer good_platform = Some sdp_offer" "setLocalDescription good_platform"
    by (simp_all add: good_platform_def)
  have c: "field sdp_offer ''type'' = Some (JStr ''offer'')" by (simp add: sdp_offer_def)
  from start_call_sends_offer[OF a b] a b c show ?thesis
    by (simp add: client_signal_def ready_client_def offers_sent_def stringified_sdp)
qed

text \<open>
  Start Call is pressed twice and no message arrives in between: two offers are sent.
\<close>

theorem second_offer_counterexample:
  "offers_sent (snd (startCall good_platform ready_client)
                @ snd (startCall good_platform (fst (startCall good_platform ready_client)))) = 2"
  by (simp add: client_eval good_platform_def ready_client_def sdp_offer_def offers_sent_def)

subsection \<open>Periodic sync\<close>

text \<open>
  C5, as the code has it. With a player and a socket, as host and with sync not disabled,
  the interval is installed and each firing sends one \<open>yt-sync\<close> envelope with action
  \<open>seek\<close> and the player's current time; the callback never reads the player's state, so
  it sends the same envelope in every state, paused included. Without these conditions
  it sends nothing.
\<close>

theorem periodic_sync_any_state:
  "(ytPlayerRef c = Some p \<and> wsRef c \<and> isHost c \<and> \<not> disableSync c
      \<longrightarrow> periodic_sync_installed c
          \<and> periodic_sync_tick c = [WsSend (seek_envelope c (currentTime p))]
          \<and> periodic_sync_tick (c\<lparr>ytPlayerRef := Some (p\<lparr>playerState := st\<rparr>)\<rparr>)
              = periodic_sync_tick c)
   \<and> (\<not> periodic_sync_installed c \<longrightarrow> periodic_sync_tick c = [])"
  by (auto simp: periodic_sync_tick_def periodic_sync_installed_def getCurrentTime_def
                 seek_envelope_def split: option.splits)

theorem periodic_sync_any_state_witness:
  "ytPlayerRef paused_host = Some paused_player \<and> wsRef paused_host \<and> isHost paused_host
   \<and> \<not> disableSync paused_host \<and> periodic_sync_installed paused_host
   \<and> periodic_sync_tick (paused_host\<lparr>ytPlayerRef := Some (paused_player\<lparr>playerState := Playing\<rparr>)\<rparr>)
       = [WsSend (JObj [(''type'', JStr ''yt-sync''), (''room'', JStr ''r''),
                        (''action'', JStr ''seek''), (''time'', JNum ''42.5'')])]
   \<and> \<not> periodic_sync_installed ready_client \<and> periodic_sync_tick ready_client = []"
proof -
  have a: "ytPlayerRef paused_host = Some paused_player \<and> wsRef paused_host \<and> isHost paused_host
           \<and> \<not> disableSync paused_host"
    by (simp add: paused_host_def ready_client_def)
  have b: "\<not> periodic_sync_installed ready_client"
    by (simp add: periodic_sync_installed_def ready_client_def)
  from periodic_sync_any_state[of paused_host paused_player Playing] a
    periodic_sync_any_state[of ready_client paused_player Playing] b
  show ?thesis
    by (simp add: seek_envelope_def paused_player_def paused_host_def ready_client_def
                  finite_number_def)
qed

text \<open>A host whose player is paused: the interval's callback sends the corrective seek.\<close>

theorem paused_sync_counterexample:
  "map_option playerState (ytPlayerRef paused_host) = Some Paused
   \<and> periodic_sync_installed paused_host
   \<and> periodic_sync_tick paused_host
       = [WsSend (JObj [(''type'', JStr ''yt-sync''), (''room'', JStr ''r''),
                        (''action'', JStr ''seek''), (''time'', JNum ''42.5'')])]"
  by (simp add: client_eval paused_host_def paused_player_def ready_client_def
                finite_number_def)

subsection \<open>Answering an offer\<close>

text \<open>
  Whatever the platform calls return, the calls made for an offer are an initial part of
  the sequence below: a rejected call ends the handler before the later steps.
\<close>

lemma on_sdp_in_order:
  assumes "field offer ''type'' = Some (JStr ''offer'')"
  shows "\<exists>n answer. snd (on_sdp pf c offer) =
           take n [SetRemoteDescription offer, CreateAnswer, SetLocalDescription answer,
                   WsSend (client_signal c [(''sdp'', answer)])]"
proof (cases "setRemoteDescription pf")
  case False
  then have "snd (on_sdp pf c offer) =
      take 1 [SetRemoteDescription offer, CreateAnswer, SetLocalDescription offer,
              WsSend (client_signal c [(''sdp'', offer)])]"
    by (simp add: on_sdp_def)
  then show ?thesis by blast
next
  case True
  show ?thesis
  proof (cases "createAnswer pf")
    case None
    with True assms have "snd (on_sdp pf c offer) =
        take 2 [SetRemoteDescription offer, CreateAnswer, SetLocalDescription offer,
                WsSend (client_signal c [(''sdp'', offer)])]"
      by (simp add: on_sdp_def)
    then show ?thesis by blast
  next
    case (Some answer)
    with True assms have "snd (on_sdp pf c offer) =
        take (if setLocalDescription pf \<and> wsRef c then 4 else 3)
          [SetRemoteDescription offer, CreateAnswer, SetLocalDescription answer,
           WsSend (client_signal c [(''sdp'', answer)])]"
      by (simp add: on_sdp_def)
    then show ?thesis by blast
  qed
qed

text \<open>
  C7. A client with a peer connection receives a \<open>signal\<close> envelope whose payload carries a
  description of type \<open>offer\<close>; the platform calls succeed and the socket exists. Then the
  handler's calls are, in this order: set the offer as the remote description, create an
  answer, set the answer as the local description, send the answer in a \<open>signal\<close>
  envelope; the client's state is unchanged.
\<close>

theorem answer_sequence:
  assumes "field data ''type'' = Some (JStr ''signal'')" and "pcRef c"
      and "field data ''payload'' = Some payload" and "field payload ''sdp'' = Some offer"
      and "field offer ''type'' = Some (JStr ''offer'')"
      and "setRemoteDescription pf" and "createAnswer pf = Some answer"
      and "setLocalDescription pf" and "wsRef c"
  shows "onmessage pf c (Parsed data) =
           (c, [SetRemoteDescription offer, CreateAnswer, SetLocalDescription answer,
                WsSend (client_signal c [(''sdp'', answer)])])"
proof -
  have 1: "data \<noteq> JNull" using assms(1) by auto
  have 2: "payload \<noteq> JNull" using assms(4) by auto
  have 3: "truthy (Some offer)" using assms(5) by (cases offer) auto
  have "on_sdp pf c offer =
          (c, [SetRemoteDescription offer, CreateAnswer, SetLocalDescription answer,
               WsSend (client_signal c [(''sdp'', answer)])])"
    using assms(5-9) by (simp add: on_sdp_def)
  then have "on_signal pf c data =
          (c, [SetRemoteDescription offer, CreateAnswer, SetLocalDescription answer,
               WsSend (client_signal c [(''sdp'', answer)])])"
    using assms(3,4) 2 3 by (simp add: on_signal_def)
  then show ?thesis using assms(1,2) 1 by (simp add: onmessage_def)
qed

theorem answer_sequence_witness:
  "field relayed_offer ''type'' = Some (JStr ''signal'') \<and> pcRef ready_client
   \<and> field relayed_offer ''payload'' = Some (JObj [(''sdp'', sdp_offer)])
   \<and> field (JObj [(''sdp'', sdp_offer)]) ''sdp'' = Some sdp_offer
   \<and> field sdp_offer ''type'' = Some (JStr ''offer'')
   \<and> setRemoteDescription good_platform \<and> createAnswer good_platform = Some sdp_answer
   \<and> setLocalDescription good_platform \<and> wsRef ready_client
   \<and> onmessage good_platform ready_client (Parsed relayed_offer) =
       (ready_client,
        [SetRemoteDescription sdp_offer, CreateAnswer, SetLocalDescription sdp_answer,
         WsSend (JObj [(''type'', JStr ''signal''), (''room'', JStr ''r''), (''user'', JStr ''bob''),
                       (''payload'', JObj [(''sdp'', sdp_answer)])])])"
proof -
  have a: "field relayed_offer ''type'' = Some (JStr ''signal'')"
    and b: "pcRef ready_client"
    and c: "field relayed_offer ''payload'' = Some (JObj [(''sdp'', sdp_offer)])"
    and d: "field (JObj [(''sdp'', sdp_offer)]) ''sdp'' = Some sdp_offer"
    and e: "field sdp_offer ''type'' = Some (JStr ''offer'')"
    and f: "setRemoteDescription good_platform"
    and g: "createAnswer good_platform = Some sdp_answer"
    and h: "setLocalDescription good_platform"
    and i: "wsRef ready_client"
    by (simp_all add: relayed_offer_def ready_client_def good_platform_def sdp_offer_def)
  from answer_sequence[OF a b c d e f g h i] a b c d e f g h i show ?thesis
    by (simp add: client_signal_def ready_client_def stringified_sdp)
qed

subsection \<open>Applying sync events\<close>

lemma on_yt_sync_idem: "on_yt_sync data (on_yt_sync data p) = on_yt_sync data p"
  by (simp add: on_yt_sync_def Let_def playVideo_def pauseVideo_def seekTo_def loadVideoById_def)

text \<open>
  C9. For a \<open>yt-sync\<close> message with action \<open>play\<close>, handling it twice in a row leaves the
  client, its player included, as handling it once does; the player is the one it was
  with \<open>playVideo\<close> applied (untouched when sync is disabled or there is no player); and
  when the player is already playing the message changes nothing.
\<close>

theorem play_idempotent:
  assumes "field data ''type'' = Some (JStr ''yt-sync'')"
      and "field data ''action'' = Some (JStr ''play'')"
  shows "fst (onmessage pf (fst (onmessage pf c (Parsed data))) (Parsed data))
           = fst (onmessage pf c (Parsed data))
       \<and> ytPlayerRef (fst (onmessage pf c (Parsed data))) =
           (if disableSync c then ytPlayerRef c else map_option playVideo (ytPlayerRef c))
       \<and> (\<forall>p. ytPlayerRef c = Some p \<and> playerState p = Playing
             \<longrightarrow> fst (onmessage pf c (Parsed data)) = c)"
proof -
  have nn: "data \<noteq> JNull" using assms(1) by auto
  have pl: "on_yt_sync data = playVideo"
    using assms(2) by (auto simp: on_yt_sync_def Let_def)
  have idem: "playVideo (playVideo p) = playVideo p" for p by (simp add: playVideo_def)
  have noop: "playVideo p = p" if "playerState p = Playing" for p
    using that by (simp add: playVideo_def)
  show ?thesis
    using assms(1) nn pl idem noop
    by (cases "ytPlayerRef c") (auto simp: onmessage_def)
qed

theorem play_idempotent_witness:
  "field play_event ''type'' = Some (JStr ''yt-sync'')
   \<and> field play_event ''action'' = Some (JStr ''play'')
   \<and> ytPlayerRef (fst (onmessage good_platform paused_host (Parsed play_event)))
       = Some (paused_player\<lparr>playerState := Playing\<rparr>)
   \<and> fst (onmessage good_platform
            (fst (onmessage good_platform paused_host (Parsed play_event))) (Parsed play_event))
       = fst (onmessage good_platform paused_host (Parsed play_event))"
proof -
  have a: "field play_event ''type'' = Some (JStr ''yt-sync'')"
    and b: "field play_event ''action'' = Some (JStr ''play'')"
    by (simp_all add: play_event_def)
  have c: "\<not> disableSync paused_host" "ytPlayerRef paused_host = Some paused_player"
    by (simp_all add: paused_host_def ready_client_def)
  from play_idempotent[OF a b, of good_platform paused_host] a b c show ?thesis
    by (simp add: playVideo_def)
qed

end
